theory Spec2Isabelle
  imports Complex_Main "HOL-Library.List_Lexorder" "HOL-Library.Char_ord" "HOL-Library.Multiset"
    "HOL-Library.Product_Lexorder"
begin

section \<open>JavaScript values of a parsed record\<close>

text \<open>
  The dashboard pages work on rows delivered by the CSV parser: plain objects from column
  name to a value. A value is modelled by \<open>cell\<close>: a missing property (\<open>undefined\<close>),
  \<open>null\<close>, a finite number, a string, a boolean or a \<open>Date\<close> object (the parser's dynamic
  typing turns a field in ISO format into one). Finite numbers are rationals and the
  arithmetic on them is exact: the rounding error of IEEE doubles, \<open>NaN\<close> and the infinities
  as cell values are outside the model (\<open>NaN\<close> as the result of a conversion is \<open>None\<close>).
  Objects are finite maps of their own properties; property names inherited from
  \<open>Object.prototype\<close> are not modelled.

  Built-ins of the JavaScript runtime whose result depends on text formats are parameters,
  collected in \<open>runtime\<close>: the conversion of a string to a number (\<open>Number(s)\<close>, \<open>None\<close> for
  \<open>NaN\<close>), of a number and of a date to a string (\<open>String(n)\<close>, \<open>String(d)\<close>), \<open>Date.parse\<close>
  (\<open>None\<close> for \<open>NaN\<close>) and \<open>Date.prototype.toISOString\<close> of a valid time value.
  \<open>String.prototype.toLowerCase\<close> is passed as a function where the column detection needs
  it.

  A \<open>Date\<close> object holds an integral time value in milliseconds, or \<open>NaN\<close> (an invalid date).
\<close>

datatype js_date = Date int | InvalidDate

datatype cell = Undefined | Null | Num rat | Str string | Bool bool | DateObj js_date

type_synonym row = "(string \<times> cell) list"

record runtime =
  StringToNumber :: "string \<Rightarrow> rat option"
  NumberToString :: "rat \<Rightarrow> string"
  DateToString :: "js_date \<Rightarrow> string"
  DateParse :: "string \<Rightarrow> int option"
  toISOString :: "int \<Rightarrow> string"

text \<open>\<open>r[col]\<close>: the value of an own property, \<open>undefined\<close> when the row has none.\<close>

definition get :: "row \<Rightarrow> string \<Rightarrow> cell" where
  "get r col = (case map_of r col of None \<Rightarrow> Undefined | Some c \<Rightarrow> c)"

text \<open>\<open>Number(v)\<close>; \<open>None\<close> is \<open>NaN\<close>.\<close>

fun Number :: "runtime \<Rightarrow> cell \<Rightarrow> rat option" where
  "Number rt Undefined = None"
| "Number rt Null = Some 0"
| "Number rt (Num x) = Some x"
| "Number rt (Str s) = StringToNumber rt s"
| "Number rt (Bool b) = Some (if b then 1 else 0)"
| "Number rt (DateObj d) = (case d of Date t \<Rightarrow> Some (of_int t) | InvalidDate \<Rightarrow> None)"

text \<open>\<open>String(v)\<close>, also the conversion of a value used as a property key.\<close>

fun String :: "runtime \<Rightarrow> cell \<Rightarrow> string" where
  "String rt Undefined = ''undefined''"
| "String rt Null = ''null''"
| "String rt (Num x) = NumberToString rt x"
| "String rt (Str s) = s"
| "String rt (Bool b) = (if b then ''true'' else ''false'')"
| "String rt (DateObj d) = DateToString rt d"

text \<open>Truthiness, as \<open>!v\<close>, \<open>a || b\<close> and \<open>if (v)\<close> read it.\<close>

fun truthy :: "cell \<Rightarrow> bool" where
  "truthy Undefined = False"
| "truthy Null = False"
| "truthy (Num x) = (x \<noteq> 0)"
| "truthy (Str s) = (s \<noteq> [])"
| "truthy (Bool b) = b"
| "truthy (DateObj d) = True"

section \<open>Dashboard.jsx: utilities\<close>

text \<open>
  \<^verbatim>\<open>const isNumeric = (v) => typeof v === "number" || (!isNaN(Number(v)) && v !== "" && v !== null);\<close>
\<close>

definition isNumeric :: "runtime \<Rightarrow> cell \<Rightarrow> bool" where
  "isNumeric rt v =
     ((case v of Num _ \<Rightarrow> True | _ \<Rightarrow> False) \<or>
      (Number rt v \<noteq> None \<and> v \<noteq> Str [] \<and> v \<noteq> Null))"

section \<open>Dashboard.jsx: simplePredictor\<close>

text \<open>
  A route group as the dashboard builds it: \<open>{ route, avg, count }\<close>, where \<open>avg\<close> is a number
  or \<open>null\<close> (\<open>None\<close>). The predictor returns \<open>{ ...g, prediction }\<close>.
\<close>

record stat =
  route :: string
  avg :: "rat option"
  count :: nat

record prediction_row =
  p_route :: string
  p_avg :: "rat option"
  p_count :: nat
  prediction :: string

definition with_prediction :: "stat \<Rightarrow> string \<Rightarrow> prediction_row" where
  "with_prediction g p = \<lparr>p_route = route g, p_avg = avg g, p_count = count g, prediction = p\<rparr>"

text \<open>\<open>.filter((v) => typeof v === "number")\<close> on the list of averages.\<close>

definition numbers :: "rat option list \<Rightarrow> rat list" where
  "numbers vs = map the (filter (\<lambda>v. v \<noteq> None) vs)"

text \<open>\<open>xs[i]\<close>: \<open>undefined\<close> (\<open>None\<close>) when the index is out of range.\<close>

definition elem_at :: "'a list \<Rightarrow> nat \<Rightarrow> 'a option" where
  "elem_at xs i = (if i < length xs then Some (xs ! i) else None)"

text \<open>\<open>Math.floor(n * q)\<close> for an array length \<open>n\<close>; \<open>0.25\<close> and \<open>0.75\<close> are exact doubles.\<close>

definition floor_mul :: "nat \<Rightarrow> rat \<Rightarrow> nat" where
  "floor_mul n q = nat \<lfloor>of_nat n * q\<rfloor>"

text \<open>\<open>a >= q\<close> and \<open>a <= q\<close> for a number \<open>a\<close>: false when \<open>q\<close> is \<open>undefined\<close>.\<close>

definition ge_js :: "rat \<Rightarrow> rat option \<Rightarrow> bool" where
  "ge_js a q = (case q of None \<Rightarrow> False | Some b \<Rightarrow> a \<ge> b)"

definition le_js :: "rat \<Rightarrow> rat option \<Rightarrow> bool" where
  "le_js a q = (case q of None \<Rightarrow> False | Some b \<Rightarrow> a \<le> b)"

text \<open>
  \<^verbatim>\<open>
  function simplePredictor(groups, numericKey) {
    const avgs = groups.map((g) => g.avg).filter((v) => typeof v === "number");
    if (avgs.length === 0) return groups.map((g) => ({ ...g, prediction: "Unknown" }));
    const sorted = [...avgs].sort((a, b) => a - b);
    const q1 = sorted[Math.floor(sorted.length * 0.25)];
    const q3 = sorted[Math.floor(sorted.length * 0.75)];
    return groups.map((g) => {
      let pred = "Moderate";
      if (typeof g.avg !== "number") pred = "NoData";
      else if (g.avg >= q3) pred = "Heavy";
      else if (g.avg <= q1) pred = "Light";
      return { ...g, prediction: pred };
    });
  }
  \<close>
  On finite numbers the comparator \<open>a - b\<close> orders as \<open>\<le>\<close> does, and the ascending
  arrangement of a list of numbers is unique, so \<open>sort\<close> is the sorted copy.
\<close>

definition simplePredictor :: "stat list \<Rightarrow> prediction_row list" where
  "simplePredictor groups =
     (let avgs = numbers (map avg groups) in
      if length avgs = 0 then map (\<lambda>g. with_prediction g ''Unknown'') groups
      else
        let sorted_avgs = sort avgs;
            q1 = elem_at sorted_avgs (floor_mul (length sorted_avgs) (25 / 100));
            q3 = elem_at sorted_avgs (floor_mul (length sorted_avgs) (75 / 100))
        in map (\<lambda>g. with_prediction g
                  (case avg g of
                     None \<Rightarrow> ''NoData''
                   | Some a \<Rightarrow>
                       if ge_js a q3 then ''Heavy''
                       else if le_js a q1 then ''Light''
                       else ''Moderate'')) groups)"

text \<open>
  The classifier in the words of the specification: nearest-rank quartiles at the indices
  \<open>n div 4\<close> and \<open>3 n div 4\<close> of the ascending defined averages, the Heavy test first.
\<close>

definition spec_label :: "rat \<Rightarrow> rat \<Rightarrow> rat option \<Rightarrow> string" where
  "spec_label Q1 Q3 a =
     (case a of
        None \<Rightarrow> ''NoData''
      | Some v \<Rightarrow> if v \<ge> Q3 then ''Heavy'' else if v \<le> Q1 then ''Light'' else ''Moderate'')"

definition spec_Q1 :: "rat list \<Rightarrow> rat" where
  "spec_Q1 defined = sort defined ! (length defined div 4)"

definition spec_Q3 :: "rat list \<Rightarrow> rat" where
  "spec_Q3 defined = sort defined ! (3 * length defined div 4)"

definition spec_classify :: "stat list \<Rightarrow> prediction_row list" where
  "spec_classify groups =
     (let defined = numbers (map avg groups)
      in map (\<lambda>g. with_prediction g (spec_label (spec_Q1 defined) (spec_Q3 defined) (avg g)))
           groups)"

definition demo_groups :: "stat list" where
  "demo_groups =
     [\<lparr>route = ''R1'', avg = Some 50, count = 2\<rparr>,
      \<lparr>route = ''R2'', avg = Some 10, count = 1\<rparr>,
      \<lparr>route = ''R3'', avg = None, count = 0\<rparr>,
      \<lparr>route = ''R4'', avg = Some 30, count = 4\<rparr>,
      \<lparr>route = ''R5'', avg = Some 20, count = 1\<rparr>]"

section \<open>Dashboard.jsx: aggregation by route\<close>

text \<open>
  An aggregate object \<open>byRoute\<close> (or \<open>byDate\<close>) is the list of its own properties in the
  order of their creation; each value is a bucket \<open>{ sum, count }\<close>.
\<close>

record bucket =
  b_sum :: rat
  b_count :: nat

type_synonym buckets = "(string \<times> bucket) list"

text \<open>\<open>a ?? b\<close>.\<close>

definition nullish :: "cell \<Rightarrow> cell \<Rightarrow> cell" where
  "nullish a b = (if a = Undefined \<or> a = Null then b else a)"

text \<open>\<open>if (!obj[k]) obj[k] = { sum: 0, count: 0 };\<close> (a bucket is an object, hence truthy).\<close>

definition ensure :: "string \<Rightarrow> buckets \<Rightarrow> buckets" where
  "ensure k obj =
     (if map_of obj k = None then obj @ [(k, \<lparr>b_sum = 0, b_count = 0\<rparr>)] else obj)"

text \<open>\<open>obj[k].sum += v; obj[k].count += 1;\<close>\<close>

definition add_value :: "string \<Rightarrow> rat \<Rightarrow> buckets \<Rightarrow> buckets" where
  "add_value k v obj =
     map (\<lambda>(k', b). if k' = k then (k', \<lparr>b_sum = b_sum b + v, b_count = b_count b + 1\<rparr>)
                      else (k', b)) obj"

text \<open>
  \<open>const route = r[routeCol] ?? "Unknown";\<close> used as a property key, and
  \<open>const v = isNumeric(r[valueCol]) ? Number(r[valueCol]) : null;\<close>. The only use of \<open>v\<close> is
  the test \<open>v !== null && !Number.isNaN(v)\<close>, so \<open>null\<close> and \<open>NaN\<close> are both \<open>None\<close>.
\<close>

definition route_key :: "runtime \<Rightarrow> string \<Rightarrow> row \<Rightarrow> string" where
  "route_key rt routeCol r = String rt (nullish (get r routeCol) (Str ''Unknown''))"

definition row_value :: "runtime \<Rightarrow> string \<Rightarrow> row \<Rightarrow> rat option" where
  "row_value rt valueCol r =
     (if isNumeric rt (get r valueCol) then Number rt (get r valueCol) else None)"

text \<open>
  \<^verbatim>\<open>
  const byRoute = {};
  rows.forEach((r) => {
    const route = r[routeCol] ?? "Unknown";
    const v = isNumeric(r[valueCol]) ? Number(r[valueCol]) : null;
    if (!byRoute[route]) byRoute[route] = { sum: 0, count: 0 };
    if (v !== null && !Number.isNaN(v)) {
      byRoute[route].sum += v;
      byRoute[route].count += 1;
    }
  });
  \<close>
\<close>

definition fold_value :: "string \<Rightarrow> rat option \<Rightarrow> buckets \<Rightarrow> buckets" where
  "fold_value k v obj =
     (case v of None \<Rightarrow> ensure k obj | Some x \<Rightarrow> add_value k x (ensure k obj))"

definition route_step :: "runtime \<Rightarrow> string \<Rightarrow> string \<Rightarrow> row \<Rightarrow> buckets \<Rightarrow> buckets" where
  "route_step rt routeCol valueCol r byRoute =
     fold_value (route_key rt routeCol r) (row_value rt valueCol r) byRoute"

definition aggregateByRoute :: "runtime \<Rightarrow> string \<Rightarrow> string \<Rightarrow> row list \<Rightarrow> buckets" where
  "aggregateByRoute rt routeCol valueCol rows = fold (route_step rt routeCol valueCol) rows []"

text \<open>
  \<open>Object.keys(obj)\<close>: the own keys that are array indices (canonical decimal strings below
  \<open>2^32 - 1\<close>) in ascending numeric order, then the other keys in creation order.
\<close>

definition is_digit :: "char \<Rightarrow> bool" where
  "is_digit c = (CHR ''0'' \<le> c \<and> c \<le> CHR ''9'')"

definition decimal :: "string \<Rightarrow> nat" where
  "decimal k = foldl (\<lambda>n c. 10 * n + (of_char c - 48)) 0 k"

definition array_index :: "string \<Rightarrow> nat option" where
  "array_index k =
     (if k \<noteq> [] \<and> list_all is_digit k \<and> (k = ''0'' \<or> hd k \<noteq> CHR ''0'')
         \<and> decimal k < 4294967295
      then Some (decimal k) else None)"

definition object_keys :: "(string \<times> 'a) list \<Rightarrow> string list" where
  "object_keys obj =
     (let ks = map fst obj
      in sort_key (\<lambda>k. the (array_index k)) (filter (\<lambda>k. array_index k \<noteq> None) ks)
         @ filter (\<lambda>k. array_index k = None) ks)"

text \<open>
  \<open>+x.toFixed(2)\<close> for a finite number: the nearest multiple of \<open>1/100\<close>, the larger in
  magnitude on a tie; from \<open>10^21\<close> on, \<open>toFixed\<close> prints the number itself.
\<close>

definition toFixed2 :: "rat \<Rightarrow> rat" where
  "toFixed2 x =
     (if \<bar>x\<bar> \<ge> 10 ^ 21 then x else sgn x * (of_int \<lfloor>\<bar>x\<bar> * 100 + 1 / 2\<rfloor> / 100))"

text \<open>
  \<^verbatim>\<open>
  const stats = Object.keys(byRoute).map((route) => {
    const { sum, count } = byRoute[route];
    return { route, avg: count > 0 ? +(sum / count).toFixed(2) : null, count };
  });
  \<close>
\<close>

definition stat_of :: "string \<Rightarrow> bucket \<Rightarrow> stat" where
  "stat_of k b =
     \<lparr>route = k,
      avg = (if b_count b > 0 then Some (toFixed2 (b_sum b / of_nat (b_count b))) else None),
      count = b_count b\<rparr>"

definition route_stats :: "buckets \<Rightarrow> stat list" where
  "route_stats byRoute = map (\<lambda>k. stat_of k (the (map_of byRoute k))) (object_keys byRoute)"

definition stats_of_rows :: "runtime \<Rightarrow> string \<Rightarrow> string \<Rightarrow> row list \<Rightarrow> stat list" where
  "stats_of_rows rt routeCol valueCol rows =
     route_stats (aggregateByRoute rt routeCol valueCol rows)"



text \<open>
  A runtime for the worked examples: it agrees with JavaScript on the few arguments the
  examples use (and is arbitrary elsewhere).
\<close>

definition demo_rt :: runtime where
  "demo_rt =
     \<lparr>StringToNumber = (\<lambda>s. if s = ''12'' then Some 12 else None),
      NumberToString = (\<lambda>x. if x = 7 then ''7'' else if x = 101 then ''101'' else ''0''),
      DateToString = (\<lambda>d. ''Invalid Date''),
      DateParse = (\<lambda>s. if s = ''2023-11-14T22:13:20.000Z'' then Some 1700000000000 else None),
      toISOString =
        (\<lambda>t. if t = 1700000000000 then ''2023-11-14T22:13:20.000Z''
             else if t = 1700000030000 then ''2023-11-14T22:13:50.000Z''
             else if t = 1700000060000 then ''2023-11-14T22:14:20.000Z''
             else ''1970-01-01T00:00:00.000Z'')\<rparr>"



section \<open>Dashboard.jsx: time series\<close>

text \<open>
  \<open>TimeClip\<close> is the standard's: a number beyond \<open>8.64e15\<close> in magnitude gives an invalid
  date, any other is truncated towards zero. \<open>new Date(v)\<close> copies a date, parses a string
  and converts every other value to a number.
\<close>

datatype error = RangeError

definition TimeClip :: "rat \<Rightarrow> js_date" where
  "TimeClip t =
     (if \<bar>t\<bar> > 8640000000000000 then InvalidDate
      else Date (if t \<ge> 0 then \<lfloor>t\<rfloor> else \<lceil>t\<rceil>))"

fun new_Date :: "runtime \<Rightarrow> cell \<Rightarrow> js_date" where
  "new_Date rt (DateObj d) = d"
| "new_Date rt (Str s) = (case DateParse rt s of None \<Rightarrow> InvalidDate | Some t \<Rightarrow> Date t)"
| "new_Date rt v = (case Number rt v of None \<Rightarrow> InvalidDate | Some n \<Rightarrow> TimeClip n)"

text \<open>
  \<^verbatim>\<open>
  const tryParseDate = (v) => {
    if (!v && v !== 0) return null;
    const d = new Date(v);
    if (!isNaN(d.getTime())) return d;
    const n = Number(v);
    if (!isNaN(n) && n > 1e9) return new Date(n);
    return null;
  };
  \<close>
  \<open>None\<close> is \<open>null\<close>; the second \<open>new Date(n)\<close> is returned as it is, valid or not.
\<close>

definition tryParseDate :: "runtime \<Rightarrow> cell \<Rightarrow> js_date option" where
  "tryParseDate rt v =
     (if \<not> truthy v \<and> v \<noteq> Num 0 then None
      else case new_Date rt v of
             Date t \<Rightarrow> Some (Date t)
           | InvalidDate \<Rightarrow>
               (case Number rt v of
                  None \<Rightarrow> None
                | Some n \<Rightarrow> if n > 1000000000 then Some (TimeClip n) else None))"

text \<open>
  \<open>d.toISOString().slice(0, 16)\<close>: \<open>toISOString\<close> throws a \<open>RangeError\<close> on an invalid date.
\<close>

definition minute_key :: "runtime \<Rightarrow> js_date \<Rightarrow> error + string" where
  "minute_key rt d =
     (case d of InvalidDate \<Rightarrow> Inl RangeError | Date t \<Rightarrow> Inr (take 16 (toISOString rt t)))"

text \<open>
  \<^verbatim>\<open>
  const byDate = {};
  rows.forEach((r) => {
    const d = tryParseDate(r[selectedCols.timeCol]);
    if (!d) return;
    const key = d.toISOString().slice(0, 16); // up to minute
    const v = isNumeric(r[selectedCols.valueCol]) ? Number(r[selectedCols.valueCol]) : null;
    if (!byDate[key]) byDate[key] = { sum: 0, count: 0 };
    if (v !== null && !Number.isNaN(v)) {
      byDate[key].sum += v;
      byDate[key].count += 1;
    }
  });
  const seriesData = Object.keys(byDate).sort().map(k =>
    ({ date: k, value: +(byDate[k].sum / Math.max(1, byDate[k].count)).toFixed(2) }));
  \<close>
  An exception in the callback ends the loop and the computation.
\<close>

definition date_step ::
  "runtime \<Rightarrow> string \<Rightarrow> string \<Rightarrow> row \<Rightarrow> buckets \<Rightarrow> error + buckets" where
  "date_step rt timeCol valueCol r byDate =
     (case tryParseDate rt (get r timeCol) of
        None \<Rightarrow> Inr byDate
      | Some d \<Rightarrow>
          (case minute_key rt d of
             Inl e \<Rightarrow> Inl e
           | Inr key \<Rightarrow> Inr (fold_value key (row_value rt valueCol r) byDate)))"

fun forEach :: "('a \<Rightarrow> 's \<Rightarrow> error + 's) \<Rightarrow> 'a list \<Rightarrow> 's \<Rightarrow> error + 's" where
  "forEach f [] s = Inr s"
| "forEach f (x # xs) s = (case f x s of Inl e \<Rightarrow> Inl e | Inr s' \<Rightarrow> forEach f xs s')"

definition aggregateByTime ::
  "runtime \<Rightarrow> string \<Rightarrow> string \<Rightarrow> row list \<Rightarrow> error + buckets" where
  "aggregateByTime rt timeCol valueCol rows = forEach (date_step rt timeCol valueCol) rows []"

record point =
  date :: string
  val :: rat

text \<open>
  \<open>.sort()\<close> without a comparator orders strings by their code units; on strings of
  single-byte characters that is the lexicographic order of \<open>char list\<close>.
\<close>

definition seriesData :: "buckets \<Rightarrow> point list" where
  "seriesData byDate =
     map (\<lambda>k. let b = the (map_of byDate k)
              in \<lparr>date = k, val = toFixed2 (b_sum b / of_nat (max 1 (b_count b)))\<rparr>)
         (sort (object_keys byDate))"

definition time_series :: "runtime \<Rightarrow> string \<Rightarrow> string \<Rightarrow> row list \<Rightarrow> error + point list" where
  "time_series rt timeCol valueCol rows =
     (case aggregateByTime rt timeCol valueCol rows of
        Inl e \<Rightarrow> Inl e
      | Inr byDate \<Rightarrow> Inr (seriesData byDate))"

text \<open>
  The rows of one time bucket, in the words of the specification: the rows with a
  timestamp whose minute key is \<open>k\<close>, and their non-null numeric values.
\<close>

definition row_minute :: "runtime \<Rightarrow> string \<Rightarrow> row \<Rightarrow> string option" where
  "row_minute rt timeCol r =
     (case tryParseDate rt (get r timeCol) of
        Some (Date t) \<Rightarrow> Some (take 16 (toISOString rt t))
      | _ \<Rightarrow> None)"

definition time_contributions ::
  "runtime \<Rightarrow> string \<Rightarrow> string \<Rightarrow> string \<Rightarrow> row list \<Rightarrow> rat list" where
  "time_contributions rt timeCol valueCol k rows =
     List.map_filter (row_value rt valueCol)
       (filter (\<lambda>r. row_minute rt timeCol r = Some k) rows)"

section \<open>Admin.jsx: normalization and statistics\<close>

text \<open>
  The normalized row of \<open>importCSV\<close>: \<open>{ route, timestamp, value, lat, lng, raw }\<close>. The
  fields hold whatever the expressions of the source yield, so they are cells.
\<close>

record nrow =
  nr_route :: cell
  nr_timestamp :: cell
  nr_value :: cell
  nr_lat :: cell
  nr_lng :: cell
  raw :: row

text \<open>\<open>a || b\<close>, and \<open>Number(x) || null\<close> (zero and \<open>NaN\<close> are falsy).\<close>

definition js_or :: "cell \<Rightarrow> cell \<Rightarrow> cell" where
  "js_or a b = (if truthy a then a else b)"

definition number_or_null :: "runtime \<Rightarrow> cell \<Rightarrow> cell" where
  "number_or_null rt c =
     (case Number rt c of None \<Rightarrow> Null | Some x \<Rightarrow> if x = 0 then Null else Num x)"

text \<open>
  \<^verbatim>\<open>
  const normalized = parsed.map((r) => {
    const o = { ...r };
    return {
      route: o.route || o.Road || o.link || o.segment || o.road || "Unknown",
      timestamp: o.timestamp || o.time || o.date || o.datetime || nowISO(),
      value: Number(o.value ?? o.congestion ?? o.count ?? o.flow ?? o.vehicles) || null,
      lat: Number(o.lat || o.latitude || o.start_lat) || null,
      lng: Number(o.lng || o.longitude || o.start_lng) || null,
      raw: o,
    };
  });
  setRows((prev) => [...normalized, ...prev].slice(0, 200000));
  \<close>
  \<open>now\<close> is the string \<open>nowISO()\<close> returns, taken as the same for every row of one import.
\<close>

definition normalize :: "runtime \<Rightarrow> string \<Rightarrow> row \<Rightarrow> nrow" where
  "normalize rt now r =
     \<lparr>nr_route =
        js_or (js_or (js_or (js_or (js_or (get r ''route'') (get r ''Road'')) (get r ''link''))
          (get r ''segment'')) (get r ''road'')) (Str ''Unknown''),
      nr_timestamp =
        js_or (js_or (js_or (js_or (get r ''timestamp'') (get r ''time'')) (get r ''date''))
          (get r ''datetime'')) (Str now),
      nr_value =
        number_or_null rt
          (nullish (nullish (nullish (nullish (get r ''value'') (get r ''congestion''))
             (get r ''count'')) (get r ''flow'')) (get r ''vehicles'')),
      nr_lat = number_or_null rt (js_or (js_or (get r ''lat'') (get r ''latitude'')) (get r ''start_lat'')),
      nr_lng = number_or_null rt (js_or (js_or (get r ''lng'') (get r ''longitude'')) (get r ''start_lng'')),
      raw = r\<rparr>"

definition importCSV :: "runtime \<Rightarrow> string \<Rightarrow> row list \<Rightarrow> nrow list \<Rightarrow> nrow list" where
  "importCSV rt now parsed prev = take 200000 (map (normalize rt now) parsed @ prev)"

text \<open>
  \<^verbatim>\<open>
  const stats = useMemo(() => {
    const totalRows = rows.length;
    const byRoute = {};
    const byDate = {};
    rows.forEach((r) => {
      const route = r.route || "Unknown";
      const v = Number(r.value || 0);
      if (!byRoute[route]) byRoute[route] = { sum: 0, count: 0 };
      if (!Number.isNaN(v)) {
        byRoute[route].sum += v;
        byRoute[route].count += 1;
      }
      const d = r.timestamp ? String(r.timestamp).slice(0, 10) : null;
      if (d) {
        if (!byDate[d]) byDate[d] = { sum: 0, count: 0 };
        byDate[d].sum += v;
        byDate[d].count += 1;
      }
    });
    const routeStats = Object.keys(byRoute).map((k) =>
      ({ route: k, avg: byRoute[k].count ? +(byRoute[k].sum / byRoute[k].count).toFixed(2) : 0 }));
    ...
  \<close>
  The route part of the memo is modelled: the fold into \<open>byRoute\<close> and \<open>routeStats\<close>.
\<close>

definition admin_route_key :: "runtime \<Rightarrow> nrow \<Rightarrow> string" where
  "admin_route_key rt r = String rt (js_or (nr_route r) (Str ''Unknown''))"

definition admin_value :: "runtime \<Rightarrow> nrow \<Rightarrow> rat option" where
  "admin_value rt r = Number rt (js_or (nr_value r) (Num 0))"

definition admin_route_step :: "runtime \<Rightarrow> nrow \<Rightarrow> buckets \<Rightarrow> buckets" where
  "admin_route_step rt r byRoute = fold_value (admin_route_key rt r) (admin_value rt r) byRoute"

definition admin_byRoute :: "runtime \<Rightarrow> nrow list \<Rightarrow> buckets" where
  "admin_byRoute rt rows = fold (admin_route_step rt) rows []"

record route_stat =
  rs_route :: string
  rs_avg :: rat

definition routeStats :: "runtime \<Rightarrow> nrow list \<Rightarrow> route_stat list" where
  "routeStats rt rows =
     (let byRoute = admin_byRoute rt rows
      in map (\<lambda>k. let b = the (map_of byRoute k)
                   in \<lparr>rs_route = k,
                       rs_avg = (if b_count b \<noteq> 0 then toFixed2 (b_sum b / of_nat (b_count b)) else 0)\<rparr>)
             (object_keys byRoute))"



section \<open>Auxiliary notions for the proofs\<close>

text \<open>The values folded under one key, for a list of keyed optional values.\<close>

definition keyed_values :: "string \<Rightarrow> (string \<times> rat option) list \<Rightarrow> rat list" where
  "keyed_values k kvs = List.map_filter snd (filter (\<lambda>kv. fst kv = k) kvs)"

text \<open>The rows that reach a time bucket, as pairs of minute key and value.\<close>

definition timed :: "runtime \<Rightarrow> string \<Rightarrow> string \<Rightarrow> row list \<Rightarrow> (string \<times> rat option) list" where
  "timed rt tc vc rows =
     List.map_filter (\<lambda>r. map_option (\<lambda>k. (k, row_value rt vc r)) (row_minute rt tc r)) rows"



section \<open>Dashboard.jsx: top routes, recommendation, prediction groups\<close>

text \<open>
  \<^verbatim>\<open>
  const top = stats.filter(s => typeof s.avg === "number").sort((a,b)=>b.avg-a.avg).slice(0,10);
  \<close>
  \<open>Array.prototype.sort\<close> is stable, as \<open>sort_key\<close> is; the comparator \<open>b.avg - a.avg\<close>
  orders by descending average.
\<close>

definition top_routes :: "stat list \<Rightarrow> stat list" where
  "top_routes stats = take 10 (sort_key (\<lambda>s. - the (avg s)) (filter (\<lambda>s. avg s \<noteq> None) stats))"

text \<open>\<open>xs.slice(-n)\<close>: the last \<open>n\<close> elements, all of them when there are fewer.\<close>

definition slice_last :: "nat \<Rightarrow> 'a list \<Rightarrow> 'a list" where
  "slice_last n xs = drop (length xs - n) xs"

text \<open>
  \<^verbatim>\<open>
  // recommended routes: pick routes predicted Light or moderate and with low avg
  const recommended = (topRoutes || []).slice(-3).map(r => r.route).slice(0,3);
  \<close>
\<close>

definition recommended :: "stat list \<Rightarrow> string list" where
  "recommended topRoutes = take 3 (map route (slice_last 3 topRoutes))"

text \<open>
  The recommendation in the words of the specification: the routes with a defined average,
  ascending by average, the first \<open>topN\<close> of them.
\<close>

definition spec_recommend :: "stat list \<Rightarrow> nat \<Rightarrow> string list" where
  "spec_recommend stats topN =
     map route (take topN (sort_key (\<lambda>s. the (avg s)) (filter (\<lambda>s. avg s \<noteq> None) stats)))"

text \<open>
  \<^verbatim>\<open>
  const counts = ["Heavy","Moderate","Light"].map(k =>
    ({ name: k, count: preds.filter(p => p.prediction === k).length }));
  \<close>
\<close>

record group_count =
  gc_name :: string
  gc_count :: nat

definition pred_groups :: "prediction_row list \<Rightarrow> group_count list" where
  "pred_groups preds =
     map (\<lambda>k. \<lparr>gc_name = k, gc_count = length (filter (\<lambda>p. prediction p = k) preds)\<rparr>)
       [''Heavy'', ''Moderate'', ''Light'']"

section \<open>Dashboard.jsx: the map view\<close>




section \<open>Dashboard.jsx: the dataset state\<close>

text \<open>
  \<open>c.includes(k)\<close>: \<open>k\<close> occurs in \<open>c\<close> as a contiguous substring.
\<close>

fun starts_with :: "string \<Rightarrow> string \<Rightarrow> bool" where
  "starts_with s [] = True"
| "starts_with [] (k # ks) = False"
| "starts_with (c # cs) (k # ks) = (c = k \<and> starts_with cs ks)"

fun js_includes :: "string \<Rightarrow> string \<Rightarrow> bool" where
  "js_includes [] k = (k = [])"
| "js_includes (c # cs) k = (starts_with (c # cs) k \<or> js_includes cs k)"

record selected =
  routeCol :: string
  timeCol :: string
  valueCol :: string
  latCol :: string
  lngCol :: string

record dashboard =
  st_rows :: "row list"
  st_columns :: "string list"
  st_selectedCols :: selected
  st_statsByRoute :: "stat list"
  st_series :: "point list"
  st_predictions :: "prediction_row list"
  st_predGroups :: "group_count list"
  st_topRoutes :: "stat list"

text \<open>
  \<^verbatim>\<open>
  const onParsed = (data, metaFields) => {
    setRows(data || []);
    setColumns(metaFields || (data && data[0] ? Object.keys(data[0]) : []) || []);
    const lower = (metaFields || []).map((c) => c.toLowerCase());
    const find = (keys) => {
      const idx = lower.findIndex((c) => keys.some((k) => c.includes(k)));
      return idx >= 0 ? metaFields[idx] : "";
    };
    setSelectedCols({
      routeCol: find(["route", "road", "segment", "link"]) || "",
      timeCol: find(["timestamp", "time", "date", "datetime"]) || "",
      valueCol: find(["congestion", "count", "flow", "speed", "vehicles"]) || "",
      latCol: find(["lat", "latitude"]) || "",
      lngCol: find(["lon", "lng", "longitude"]) || "",
    });
    ...
  };
  \<close>
  Both callers pass arrays (\<open>res.data, res.meta.fields || []\<close> and \<open>[], []\<close>), so \<open>data\<close> and
  \<open>metaFields\<close> are lists. \<open>toLowerCase\<close> is given as a function \<open>lc\<close>.
\<close>

definition find_field :: "(string \<Rightarrow> string) \<Rightarrow> string list \<Rightarrow> string list \<Rightarrow> string" where
  "find_field lc metaFields keys =
     (case List.find (\<lambda>(c, l). list_ex (\<lambda>k. js_includes l k) keys) (zip metaFields (map lc metaFields)) of
        None \<Rightarrow> ''''
      | Some (c, l) \<Rightarrow> c)"

definition auto_select :: "(string \<Rightarrow> string) \<Rightarrow> string list \<Rightarrow> selected" where
  "auto_select lc metaFields =
     \<lparr>routeCol = find_field lc metaFields [''route'', ''road'', ''segment'', ''link''],
      timeCol = find_field lc metaFields [''timestamp'', ''time'', ''date'', ''datetime''],
      valueCol = find_field lc metaFields [''congestion'', ''count'', ''flow'', ''speed'', ''vehicles''],
      latCol = find_field lc metaFields [''lat'', ''latitude''],
      lngCol = find_field lc metaFields [''lon'', ''lng'', ''longitude'']\<rparr>"

definition onParsed :: "(string \<Rightarrow> string) \<Rightarrow> row list \<Rightarrow> string list \<Rightarrow> dashboard \<Rightarrow> dashboard" where
  "onParsed lc data metaFields st =
     st\<lparr>st_rows := data, st_columns := metaFields, st_selectedCols := auto_select lc metaFields\<rparr>"

text \<open>
  The effect that recomputes the analytics when \<open>rows\<close> or \<open>selectedCols\<close> change:
  \<^verbatim>\<open>
  useEffect(() => {
    const { routeCol, valueCol, timeCol } = selectedCols;
    if (!rows || rows.length === 0 || !routeCol || !valueCol) {
      setStatsByRoute([]);
      setPredictions([]);
      setTopRoutes([]);
    } else {
      const byRoute = {}; ...
      setStatsByRoute(stats);
      const preds = simplePredictor(stats, valueCol);
      setPredictions(preds);
      const top = ...;
      setTopRoutes(top);
      const counts = ...;
      setPredGroups(counts);
    }
    if (!rows || rows.length === 0 || !selectedCols.timeCol || !selectedCols.valueCol) {
      setSeries([]);
    } else {
      const byDate = {}; ...
      setSeries(seriesData);
    }
  }, [rows, selectedCols]);
  \<close>
  The first branch leaves \<open>predGroups\<close> as it was. An exception ends the effect.
\<close>

definition analytics :: "runtime \<Rightarrow> dashboard \<Rightarrow> error + dashboard" where
  "analytics rt st =
     (let sel = st_selectedCols st;
          st1 =
            (if st_rows st = [] \<or> routeCol sel = [] \<or> valueCol sel = []
             then st\<lparr>st_statsByRoute := [], st_predictions := [], st_topRoutes := []\<rparr>
             else
               let stats = stats_of_rows rt (routeCol sel) (valueCol sel) (st_rows st);
                   preds = simplePredictor stats
               in st\<lparr>st_statsByRoute := stats, st_predictions := preds,
                      st_topRoutes := top_routes stats, st_predGroups := pred_groups preds\<rparr>)
      in if st_rows st = [] \<or> timeCol sel = [] \<or> valueCol sel = []
         then Inr (st1\<lparr>st_series := []\<rparr>)
         else (case time_series rt (timeCol sel) (valueCol sel) (st_rows st) of
                 Inl e \<Rightarrow> Inl e
               | Inr pts \<Rightarrow> Inr (st1\<lparr>st_series := pts\<rparr>)))"

text \<open>One completed ingestion: the parser's callback, then the effect.\<close>

definition ingest ::
  "runtime \<Rightarrow> (string \<Rightarrow> string) \<Rightarrow> row list \<Rightarrow> string list \<Rightarrow> dashboard \<Rightarrow> error + dashboard" where
  "ingest rt lc data metaFields st = analytics rt (onParsed lc data metaFields st)"

text \<open>The derived views the dashboard shows and exports, with the row set.\<close>

definition views ::
  "dashboard \<Rightarrow> row list \<times> stat list \<times> point list \<times> prediction_row list \<times> stat list" where
  "views st = (st_rows st, st_statsByRoute st, st_series st, st_predictions st, st_topRoutes st)"

definition initial :: dashboard where
  "initial =
     \<lparr>st_rows = [], st_columns = [],
      st_selectedCols = \<lparr>routeCol = [], timeCol = [], valueCol = [], latCol = [], lngCol = []\<rparr>,
      st_statsByRoute = [], st_series = [], st_predictions = [], st_predGroups = [],
      st_topRoutes = []\<rparr>"


definition eleven_routes :: "stat list" where
  "eleven_routes =
     map (\<lambda>n. \<lparr>route = [char_of (n + 64)], avg = Some (of_nat n), count = 1\<rparr>) [1 ..< 12]"

section \<open>Admin.jsx: recommendRoute\<close>








definition first_csv :: "row list" where
  "first_csv =
     [[(''route'', Str ''A''), (''count'', Num 7)],
      [(''route'', Str ''A''), (''count'', Num 9)],
      [(''route'', Str ''C''), (''count'', Num 1)]]"

definition second_csv :: "row list" where
  "second_csv = [[(''route'', Str ''B''), (''count'', Num 5)]]"




definition unlabelled_csv :: "row list" where
  "unlabelled_csv = [[(''route'', Str ''B''), (''value'', Num 5)]]"

section \<open>Properties of the classifier\<close>

lemma floor_mul_quarter: "floor_mul n (1 / 4) = n div 4"
proof -
  have "(of_nat n :: rat) * (1 / 4) = of_int (int n) / of_int 4" by simp
  then have "\<lfloor>(of_nat n :: rat) * (1 / 4)\<rfloor> = int n div 4"
    by (simp only: floor_divide_of_int_eq)
  then show ?thesis by (simp add: floor_mul_def nat_div_distrib)
qed

lemma floor_mul_three_quarters: "floor_mul n (3 / 4) = 3 * n div 4"
proof -
  have "(of_nat n :: rat) * (3 / 4) = of_int (int (3 * n)) / of_int 4" by simp
  then have "\<lfloor>(of_nat n :: rat) * (3 / 4)\<rfloor> = int (3 * n) div 4"
    by (simp only: floor_divide_of_int_eq)
  then show ?thesis by (simp add: floor_mul_def nat_div_distrib)
qed

lemma floor_mul_025: "floor_mul n (25 / 100) = n div 4"
  using floor_mul_quarter [of n] by simp

lemma floor_mul_075: "floor_mul n (75 / 100) = 3 * n div 4"
  using floor_mul_three_quarters [of n] by simp

text \<open>
  C10. For a non-empty list of defined averages of length \<open>n\<close>, the indices
  \<open>Math.floor(n * 0.25)\<close> and \<open>Math.floor(n * 0.75)\<close> are below \<open>n\<close>, so both quartile
  reads of the sorted array are in bounds and yield numbers of the list.
\<close>

theorem quartile_reads_in_bounds:
  assumes "avgs \<noteq> []"
  shows "floor_mul (length (sort avgs)) (25 / 100) < length (sort avgs)
       \<and> floor_mul (length (sort avgs)) (75 / 100) < length (sort avgs)
       \<and> (\<exists>q1 q3. elem_at (sort avgs) (floor_mul (length (sort avgs)) (25 / 100)) = Some q1
                 \<and> elem_at (sort avgs) (floor_mul (length (sort avgs)) (75 / 100)) = Some q3
                 \<and> q1 \<in> set avgs \<and> q3 \<in> set avgs)"
proof -
  let ?s = "sort avgs"
  let ?n = "length ?s"
  from assms have pos: "0 < ?n" by simp
  have "?n div 4 < ?n"
    using pos by arith
  then have i1: "floor_mul ?n (25 / 100) < ?n"
    by (simp only: floor_mul_025)
  have "3 * ?n div 4 < ?n"
    using pos by arith
  then have i3: "floor_mul ?n (75 / 100) < ?n"
    by (simp only: floor_mul_075)
  have m1: "?s ! floor_mul ?n (25 / 100) \<in> set avgs"
    using nth_mem [OF i1] by simp
  have m3: "?s ! floor_mul ?n (75 / 100) \<in> set avgs"
    using nth_mem [OF i3] by simp
  show ?thesis
    using i1 i3 m1 m3 by (simp add: elem_at_def)
qed

theorem quartile_reads_in_bounds_witness:
  "[10, 50 :: rat] \<noteq> []
   \<and> floor_mul (length (sort [10, 50 :: rat])) (25 / 100) < length (sort [10, 50 :: rat])
   \<and> floor_mul (length (sort [10, 50 :: rat])) (75 / 100) < length (sort [10, 50 :: rat])
   \<and> elem_at (sort [10, 50 :: rat]) (floor_mul (length (sort [10, 50 :: rat])) (25 / 100)) = Some 10
   \<and> elem_at (sort [10, 50 :: rat]) (floor_mul (length (sort [10, 50 :: rat])) (75 / 100)) = Some 50"
proof -
  have ne: "[10, 50 :: rat] \<noteq> []" by simp
  have v1: "elem_at (sort [10, 50 :: rat]) (floor_mul (length (sort [10, 50 :: rat])) (25 / 100)) = Some 10"
    by (simp add: floor_mul_quarter elem_at_def)
  have v3: "elem_at (sort [10, 50 :: rat]) (floor_mul (length (sort [10, 50 :: rat])) (75 / 100)) = Some 50"
    by (simp add: floor_mul_three_quarters elem_at_def)
  from quartile_reads_in_bounds [OF ne] ne v1 v3 show ?thesis by blast
qed

lemma q1_read:
  assumes "avgs \<noteq> []"
  shows "elem_at (sort avgs) (floor_mul (length (sort avgs)) (25 / 100)) = Some (spec_Q1 avgs)"
proof -
  have "length avgs div 4 < length avgs"
    using assms by (cases avgs) simp_all
  then show ?thesis
    by (simp only: floor_mul_025 elem_at_def spec_Q1_def length_sort if_True)
qed

lemma q3_read:
  assumes "avgs \<noteq> []"
  shows "elem_at (sort avgs) (floor_mul (length (sort avgs)) (75 / 100)) = Some (spec_Q3 avgs)"
proof -
  have "0 < length avgs"
    using assms by simp
  then have "3 * length avgs div 4 < length avgs"
    by arith
  then show ?thesis
    by (simp only: floor_mul_075 elem_at_def spec_Q3_def length_sort if_True)
qed

lemma simplePredictor_nonempty:
  assumes "numbers (map avg groups) \<noteq> []"
  shows "simplePredictor groups = spec_classify groups"
proof -
  let ?avgs = "numbers (map avg groups)"
  have len: "length ?avgs \<noteq> 0"
    using assms by simp
  have lab: "(case a of None \<Rightarrow> ''NoData''
              | Some v \<Rightarrow> if ge_js v (Some (spec_Q3 ?avgs)) then ''Heavy''
                          else if le_js v (Some (spec_Q1 ?avgs)) then ''Light'' else ''Moderate'')
             = spec_label (spec_Q1 ?avgs) (spec_Q3 ?avgs) a" for a
    by (cases a) (simp_all add: spec_label_def ge_js_def le_js_def)
  show ?thesis
    unfolding simplePredictor_def spec_classify_def Let_def
    using len by (simp only: q1_read [OF assms] q3_read [OF assms] lab if_False)
qed

text \<open>
  C1. When at least one route group has a defined numeric average, the classifier sorts the
  \<open>n\<close> defined averages ascending, reads Q1 at index \<open>n div 4\<close> and Q3 at index
  \<open>3 n div 4\<close> (nearest rank, no interpolation) and labels every group: no numeric average
  gives NoData, \<open>avg \<ge> Q3\<close> gives Heavy, otherwise \<open>avg \<le> Q1\<close> gives Light, otherwise
  Moderate. The Heavy test comes first: a group whose average equals Q3 is labelled Heavy.
\<close>

theorem simplePredictor_nearest_rank:
  assumes "numbers (map avg groups) \<noteq> []"
  shows "simplePredictor groups = spec_classify groups
       \<and> sorted (sort (numbers (map avg groups)))
       \<and> set (sort (numbers (map avg groups))) = set (numbers (map avg groups))
       \<and> length (sort (numbers (map avg groups))) = length (numbers (map avg groups))
       \<and> (\<forall>g \<in> set groups. avg g = Some (spec_Q3 (numbers (map avg groups)))
             \<longrightarrow> with_prediction g ''Heavy'' \<in> set (simplePredictor groups))"
proof -
  have eq: "simplePredictor groups = spec_classify groups"
    by (rule simplePredictor_nonempty [OF assms])
  have tie: "with_prediction g ''Heavy'' \<in> set (simplePredictor groups)"
    if "g \<in> set groups" and "avg g = Some (spec_Q3 (numbers (map avg groups)))" for g
  proof -
    have "spec_label (spec_Q1 (numbers (map avg groups))) (spec_Q3 (numbers (map avg groups))) (avg g)
          = ''Heavy''"
      using that(2) by (simp add: spec_label_def)
    then show ?thesis
      using that(1) unfolding eq spec_classify_def Let_def by force
  qed
  from eq tie show ?thesis by simp
qed

lemma demo_groups_numbers: "numbers (map avg demo_groups) = [50, 10, 30, 20]"
  by (simp add: demo_groups_def numbers_def)

theorem simplePredictor_nearest_rank_witness:
  "numbers (map avg demo_groups) \<noteq> []
   \<and> map prediction (simplePredictor demo_groups)
       = [''Heavy'', ''Light'', ''NoData'', ''Moderate'', ''Light'']"
proof -
  have ne: "numbers (map avg demo_groups) \<noteq> []"
    by (simp add: demo_groups_numbers)
  have q1: "spec_Q1 [50, 10, 30, 20] = 20"
    by (simp add: spec_Q1_def)
  have q3: "spec_Q3 [50, 10, 30, 20] = 50"
    by (simp add: spec_Q3_def)
  have "map prediction (spec_classify demo_groups)
        = [''Heavy'', ''Light'', ''NoData'', ''Moderate'', ''Light'']"
    unfolding spec_classify_def Let_def demo_groups_numbers q1 q3
    by (simp add: demo_groups_def with_prediction_def spec_label_def)
  with simplePredictor_nearest_rank [OF ne] ne show ?thesis by simp
qed

text \<open>
  C4, as stated: when no route group has a defined numeric average, every group is labelled
  "NoData". The early return of the classifier writes the label "Unknown" instead.
\<close>

theorem simplePredictor_empty_counterexample:
  "numbers (map avg [\<lparr>route = ''R1'', avg = None, count = 0\<rparr>]) = []
   \<and> map prediction (simplePredictor [\<lparr>route = ''R1'', avg = None, count = 0\<rparr>]) = [''Unknown'']
   \<and> map prediction (simplePredictor [\<lparr>route = ''R1'', avg = None, count = 0\<rparr>]) \<noteq> [''NoData'']"
  by (simp add: numbers_def simplePredictor_def with_prediction_def)

text \<open>
  C4, amended. When no route group has a defined numeric average, the classifier returns
  every group of the input, in order, with the label "Unknown".
\<close>

theorem simplePredictor_empty:
  assumes "numbers (map avg groups) = []"
  shows "simplePredictor groups = map (\<lambda>g. with_prediction g ''Unknown'') groups
       \<and> map prediction (simplePredictor groups) = replicate (length groups) ''Unknown''"
proof -
  have eq: "simplePredictor groups = map (\<lambda>g. with_prediction g ''Unknown'') groups"
    using assms by (simp add: simplePredictor_def)
  have "map prediction (map (\<lambda>g. with_prediction g ''Unknown'') groups)
        = replicate (length groups) ''Unknown''"
    by (induction groups) (simp_all add: with_prediction_def)
  with eq show ?thesis by simp
qed

theorem simplePredictor_empty_witness:
  "numbers (map avg [\<lparr>route = ''R1'', avg = None, count = 0\<rparr>, \<lparr>route = ''R2'', avg = None, count = 0\<rparr>]) = []
   \<and> map prediction
        (simplePredictor [\<lparr>route = ''R1'', avg = None, count = 0\<rparr>, \<lparr>route = ''R2'', avg = None, count = 0\<rparr>])
       = [''Unknown'', ''Unknown'']"
proof -
  have e: "numbers (map avg [\<lparr>route = ''R1'', avg = None, count = 0\<rparr>,
                             \<lparr>route = ''R2'', avg = None, count = 0\<rparr>]) = []"
    by (simp add: numbers_def)
  from simplePredictor_empty [OF e] e show ?thesis
    by (simp add: with_prediction_def)
qed

section \<open>Properties of the aggregation\<close>

subsection \<open>Folding keyed values into buckets\<close>

lemma map_of_ensure:
  "map_of (ensure k obj) k' =
     (if k' = k \<and> map_of obj k = None then Some \<lparr>b_sum = 0, b_count = 0\<rparr> else map_of obj k')"
  by (auto simp: ensure_def map_add_def split: option.splits)

lemma map_of_add_value:
  "map_of (add_value k v obj) k' =
     (if k' = k then map_option (\<lambda>b. \<lparr>b_sum = b_sum b + v, b_count = b_count b + 1\<rparr>) (map_of obj k)
      else map_of obj k')"
  by (induction obj) (auto simp: add_value_def)

lemma map_of_fold_value:
  "map_of (fold_value k v obj) k' =
     (if k' = k then
        (case map_of obj k of
           None \<Rightarrow> Some \<lparr>b_sum = (case v of None \<Rightarrow> 0 | Some x \<Rightarrow> x),
                         b_count = (case v of None \<Rightarrow> 0 | Some x \<Rightarrow> 1)\<rparr>
         | Some b \<Rightarrow> Some \<lparr>b_sum = b_sum b + (case v of None \<Rightarrow> 0 | Some x \<Rightarrow> x),
                           b_count = b_count b + (case v of None \<Rightarrow> 0 | Some x \<Rightarrow> 1)\<rparr>)
      else map_of obj k')"
  by (cases v) (auto simp: fold_value_def map_of_ensure map_of_add_value split: option.splits)

lemma keyed_values_simps:
  "keyed_values k [] = []"
  "keyed_values k ((k', v) # kvs) =
     (if k' = k then (case v of None \<Rightarrow> keyed_values k kvs | Some x \<Rightarrow> x # keyed_values k kvs)
      else keyed_values k kvs)"
  by (cases v; simp add: keyed_values_def List.map_filter_simps)+

lemma map_of_fold_keyed:
  "map_of (fold (\<lambda>(k, v). fold_value k v) kvs acc) k =
     (case map_of acc k of
        Some b \<Rightarrow> Some \<lparr>b_sum = b_sum b + sum_list (keyed_values k kvs),
                         b_count = b_count b + length (keyed_values k kvs)\<rparr>
      | None \<Rightarrow>
          if k \<in> fst ` set kvs
          then Some \<lparr>b_sum = sum_list (keyed_values k kvs), b_count = length (keyed_values k kvs)\<rparr>
          else None)"
proof (induction kvs arbitrary: acc)
  case Nil
  then show ?case by (simp add: keyed_values_simps split: option.splits)
next
  case (Cons kv kvs)
  obtain k1 v1 where kv: "kv = (k1, v1)" by (cases kv)
  show ?case
    unfolding kv
    by (simp add: Cons.IH map_of_fold_value keyed_values_simps split: option.splits)
qed

lemma map_of_fold_keyed_empty:
  "map_of (fold (\<lambda>(k, v). fold_value k v) kvs []) k =
     (if k \<in> fst ` set kvs
      then Some \<lparr>b_sum = sum_list (keyed_values k kvs), b_count = length (keyed_values k kvs)\<rparr>
      else None)"
  by (simp add: map_of_fold_keyed)

subsection \<open>The route view\<close>




subsection \<open>The time view\<close>

lemma forEach_date_step:
  "forEach (date_step rt tc vc) rows acc = Inr byDate \<Longrightarrow>
     byDate = fold (\<lambda>(k, v). fold_value k v) (timed rt tc vc rows) acc"
proof (induction rows arbitrary: acc)
  case Nil
  then show ?case by (simp add: timed_def List.map_filter_simps)
next
  case (Cons r rows)
  show ?case
  proof (cases "tryParseDate rt (get r tc)")
    case None
    then have "date_step rt tc vc r acc = Inr acc"
      by (simp add: date_step_def)
    then have "forEach (date_step rt tc vc) rows acc = Inr byDate"
      using Cons.prems by simp
    from Cons.IH [OF this] None show ?thesis
      by (simp add: timed_def List.map_filter_simps row_minute_def)
  next
    case (Some d)
    show ?thesis
    proof (cases d)
      case (Date t)
      with Some have "date_step rt tc vc r acc
            = Inr (fold_value (take 16 (toISOString rt t)) (row_value rt vc r) acc)"
        by (simp add: date_step_def minute_key_def)
      then have "forEach (date_step rt tc vc) rows
            (fold_value (take 16 (toISOString rt t)) (row_value rt vc r) acc) = Inr byDate"
        using Cons.prems by simp
      from Cons.IH [OF this] Some Date show ?thesis
        by (simp add: timed_def List.map_filter_simps row_minute_def)
    next
      case InvalidDate
      with Some have "date_step rt tc vc r acc = Inl RangeError"
        by (simp add: date_step_def minute_key_def)
      with Cons.prems show ?thesis
        by simp
    qed
  qed
qed

lemma keyed_values_timed:
  "keyed_values k (timed rt tc vc rows) = time_contributions rt tc vc k rows"
  by (induction rows)
     (auto simp: timed_def time_contributions_def keyed_values_simps List.map_filter_simps
           split: option.splits)

lemma keys_timed:
  "k \<in> fst ` set (timed rt tc vc rows) \<longleftrightarrow> (\<exists>r \<in> set rows. row_minute rt tc r = Some k)"
  by (induction rows) (auto simp: timed_def List.map_filter_simps split: option.splits)

lemma map_of_aggregateByTime:
  assumes "aggregateByTime rt tc vc rows = Inr byDate"
  shows "map_of byDate k =
     (if \<exists>r \<in> set rows. row_minute rt tc r = Some k
      then Some \<lparr>b_sum = sum_list (time_contributions rt tc vc k rows),
                  b_count = length (time_contributions rt tc vc k rows)\<rparr>
      else None)"
proof -
  have "byDate = fold (\<lambda>(k, v). fold_value k v) (timed rt tc vc rows) []"
    using assms unfolding aggregateByTime_def by (rule forEach_date_step)
  then show ?thesis
    by (simp only: map_of_fold_keyed_empty keys_timed keyed_values_timed)
qed

subsection \<open>The admin page\<close>





subsection \<open>Counts and sums of the buckets\<close>









lemma set_object_keys: "set (object_keys obj) = fst ` set obj"
  by (auto simp: object_keys_def Let_def)











section \<open>Properties of the time series\<close>

lemma keys_ensure: "map fst (ensure k obj) = (if k \<in> fst ` set obj then map fst obj else map fst obj @ [k])"
  by (auto simp: ensure_def map_of_eq_None_iff)

lemma keys_add_value: "map fst (add_value k v obj) = map fst obj"
  by (induction obj) (auto simp: add_value_def)

lemma keys_fold_value:
  "map fst (fold_value k v obj) = (if k \<in> fst ` set obj then map fst obj else map fst obj @ [k])"
  by (cases v) (simp_all add: fold_value_def keys_ensure keys_add_value)

lemma distinct_fold_value:
  "distinct (map fst obj) \<Longrightarrow> distinct (map fst (fold_value k v obj))"
  by (auto simp: keys_fold_value)

lemma distinct_fold_keyed:
  "distinct (map fst acc) \<Longrightarrow> distinct (map fst (fold (\<lambda>(k, v). fold_value k v) kvs acc))"
proof (induction kvs arbitrary: acc)
  case Nil
  then show ?case by simp
next
  case (Cons kv kvs)
  obtain k v where "kv = (k, v)" by (cases kv)
  with Cons show ?case by (simp add: distinct_fold_value)
qed

lemma distinct_object_keys:
  assumes "distinct (map fst obj)"
  shows "distinct (object_keys obj)"
  using assms by (auto simp: object_keys_def Let_def)

text \<open>
  When the computation of the time series returns, the series has one point per minute key
  of a row with a valid timestamp, in strictly ascending order of the keys; rows without a
  timestamp contribute no key.
\<close>

lemma time_series_sorted:
  assumes "time_series rt tc vc rows = Inr pts"
  shows "sorted (map date pts) \<and> distinct (map date pts)
       \<and> set (map date pts) = {k. \<exists>r \<in> set rows. row_minute rt tc r = Some k}"
proof -
  from assms obtain byDate where agg: "aggregateByTime rt tc vc rows = Inr byDate"
    and pts: "pts = seriesData byDate"
    by (auto simp: time_series_def split: sum.splits)
  have fold: "byDate = fold (\<lambda>(k, v). fold_value k v) (timed rt tc vc rows) []"
    using agg unfolding aggregateByTime_def by (rule forEach_date_step)
  have d: "distinct (map fst byDate)"
    unfolding fold by (rule distinct_fold_keyed) simp
  have keys: "map date pts = sort (object_keys byDate)"
    by (simp add: pts seriesData_def comp_def Let_def)
  have "fst ` set byDate = {k. \<exists>r \<in> set rows. row_minute rt tc r = Some k}"
  proof -
    have "k \<in> fst ` set byDate \<longleftrightarrow> (\<exists>r \<in> set rows. row_minute rt tc r = Some k)" for k
    proof -
      have "(k \<in> fst ` set byDate) = (map_of byDate k \<noteq> None)"
        by (simp add: map_of_eq_None_iff)
      then show ?thesis
        by (simp add: map_of_aggregateByTime [OF agg, of k])
    qed
    then show ?thesis by blast
  qed
  then show ?thesis
    using d by (simp add: keys set_object_keys distinct_object_keys)
qed

text \<open>
  The computation returns when no timestamp is an invalid date.
\<close>

lemma aggregateByTime_returns:
  assumes "\<forall>r \<in> set rows. tryParseDate rt (get r tc) \<noteq> Some InvalidDate"
  shows "\<exists>byDate. forEach (date_step rt tc vc) rows acc = Inr byDate"
  using assms
proof (induction rows arbitrary: acc)
  case Nil
  then show ?case by simp
next
  case (Cons r rows)
  from Cons.prems have ok: "tryParseDate rt (get r tc) \<noteq> Some InvalidDate" by simp
  then obtain acc' where "date_step rt tc vc r acc = Inr acc'"
    by (cases "tryParseDate rt (get r tc)"; cases "the (tryParseDate rt (get r tc))")
       (auto simp: date_step_def minute_key_def)
  moreover from Cons.prems have "\<forall>r \<in> set rows. tryParseDate rt (get r tc) \<noteq> Some InvalidDate"
    by simp
  ultimately show ?case
    using Cons.IH [of acc'] by simp
qed

text \<open>
  C7 at a failing input. A numeric timestamp beyond the range of \<open>Date\<close> (here
  \<open>8.7e15\<close>) is not rejected by \<open>tryParseDate\<close>: the fallback \<open>new Date(n)\<close> returns an
  invalid date, which is truthy, and \<open>toISOString\<close> throws a \<open>RangeError\<close>. The row is not
  excluded; the computation of the series raises.
\<close>

theorem time_series_invalid_date_raises:
  "tryParseDate rt (Num 8700000000000000) = Some InvalidDate
   \<and> time_series rt ''time'' ''value'' [[(''time'', Num 8700000000000000), (''value'', Num 1)]]
       = Inl RangeError"
  by (simp add: time_series_def aggregateByTime_def date_step_def get_def tryParseDate_def
        TimeClip_def minute_key_def)

section \<open>Properties of the recommendation\<close>














text \<open>
  Beyond ten qualifying routes the dashboard's list is cut from the ten highest averages, so
  it no longer holds the lowest ones: of eleven routes with the averages 1 to 11 it returns
  those of 4, 3 and 2.
\<close>

lemma recommended_beyond_ten:
  "recommended (top_routes eleven_routes) = [''D'', ''C'', ''B'']
   \<and> spec_recommend eleven_routes 3 = [''A'', ''B'', ''C'']"
  by code_simp

section \<open>Replacing the dataset\<close>

lemma analytics_views:
  "map_sum id views (analytics rt (onParsed lc d f st)) =
   map_sum id views (analytics rt (onParsed lc d f st'))"
  by (simp add: analytics_def onParsed_def views_def Let_def split: sum.splits)

lemma analytics_rows: "analytics rt st = Inr st2 \<Longrightarrow> st_rows st2 = st_rows st"
  by (auto simp: analytics_def Let_def split: sum.splits if_splits)

lemma analytics_without_time:
  assumes "timeCol (st_selectedCols st) = []"
  shows "\<exists>st1. analytics rt st = Inr st1"
  using assms by (simp add: analytics_def Let_def)

lemma importCSV_small:
  assumes "length parsed + length prev \<le> 200000"
  shows "importCSV rt now parsed prev = map (normalize rt now) parsed @ prev"
  using assms by (simp add: importCSV_def)

text \<open>
  C6, amended. In the dashboard, a completed ingestion replaces the row set: after ingesting
  a dataset and then a second one, the rows are exactly the second dataset and the route
  aggregates, the time series, the predictions and the top routes are those computed from
  the second dataset and its fields alone, whatever was ingested before. The admin page's
  \<open>importCSV\<close> instead prepends the newly normalized rows to the rows already held (capped
  at 200000 rows), so the rows of an earlier import remain until the dataset is cleared.
\<close>

theorem ingest_replaces_dataset:
  "map_sum id views (ingest rt lc d2 f2 st) = map_sum id views (ingest rt lc d2 f2 st')
   \<and> (\<forall>st2. ingest rt lc d2 f2 st = Inr st2 \<longrightarrow> st_rows st2 = d2)
   \<and> importCSV rt now p2 (importCSV rt now p1 prev)
       = take 200000 (map (normalize rt now) p2 @ take 200000 (map (normalize rt now) p1 @ prev))
   \<and> (length p2 + length p1 + length prev \<le> 200000 \<longrightarrow>
         importCSV rt now p2 (importCSV rt now p1 prev)
           = map (normalize rt now) p2 @ map (normalize rt now) p1 @ prev)"
proof -
  have a: "map_sum id views (ingest rt lc d2 f2 st) = map_sum id views (ingest rt lc d2 f2 st')"
    unfolding ingest_def by (rule analytics_views)
  have b: "st_rows st2 = d2" if "ingest rt lc d2 f2 st = Inr st2" for st2
    using analytics_rows [of rt "onParsed lc d2 f2 st" st2] that
    by (simp add: ingest_def onParsed_def)
  have c: "importCSV rt now p2 (importCSV rt now p1 prev)
       = take 200000 (map (normalize rt now) p2 @ take 200000 (map (normalize rt now) p1 @ prev))"
    by (simp only: importCSV_def)
  have d: "importCSV rt now p2 (importCSV rt now p1 prev)
           = map (normalize rt now) p2 @ map (normalize rt now) p1 @ prev"
    if "length p2 + length p1 + length prev \<le> 200000"
    using that by (simp add: importCSV_def)
  from a b c d show ?thesis by blast
qed

lemma second_ingest:
  "map_sum id views (ingest demo_rt id second_csv [''route'', ''count''] initial) =
     Inr (second_csv, [\<lparr>route = ''B'', avg = Some 5, count = 1\<rparr>], [],
          [\<lparr>p_route = ''B'', p_avg = Some 5, p_count = 1, prediction = ''Heavy''\<rparr>],
          [\<lparr>route = ''B'', avg = Some 5, count = 1\<rparr>])"
  by code_simp

theorem ingest_replaces_dataset_witness:
  "(\<exists>st1. ingest demo_rt id first_csv [''route'', ''count''] initial = Inr st1
      \<and> map_sum id views (ingest demo_rt id second_csv [''route'', ''count''] st1) =
          Inr (second_csv, [\<lparr>route = ''B'', avg = Some 5, count = 1\<rparr>], [],
               [\<lparr>p_route = ''B'', p_avg = Some 5, p_count = 1, prediction = ''Heavy''\<rparr>],
               [\<lparr>route = ''B'', avg = Some 5, count = 1\<rparr>]))
   \<and> length second_csv + length first_csv + length ([] :: nrow list) \<le> 200000"
proof -
  have "timeCol (auto_select id [''route'', ''count'']) = []"
    by code_simp
  then have "timeCol (st_selectedCols (onParsed id first_csv [''route'', ''count''] initial)) = []"
    by (simp add: onParsed_def)
  from analytics_without_time [OF this, of demo_rt]
  obtain st1 where s1: "ingest demo_rt id first_csv [''route'', ''count''] initial = Inr st1"
    unfolding ingest_def by blast
  from ingest_replaces_dataset
    [of demo_rt id second_csv "[''route'', ''count'']" st1 initial]
  have "map_sum id views (ingest demo_rt id second_csv [''route'', ''count''] st1)
      = map_sum id views (ingest demo_rt id second_csv [''route'', ''count''] initial)"
    by blast
  with second_ingest s1 show ?thesis
    by (simp add: first_csv_def second_csv_def)
qed

text \<open>
  C6, as stated, on the admin page: after importing a first file with the routes A and C and
  then a second, smaller file with the route B alone, the route statistics still list A and
  C.
\<close>

theorem importCSV_keeps_earlier_rows_counterexample:
  "map rs_route (routeStats demo_rt (importCSV demo_rt ''t'' second_csv (importCSV demo_rt ''t'' first_csv [])))
     = [''B'', ''A'', ''C'']
   \<and> map rs_route (routeStats demo_rt (importCSV demo_rt ''t'' second_csv [])) = [''B'']"
proof -
  have one: "importCSV demo_rt ''t'' first_csv [] = map (normalize demo_rt ''t'') first_csv"
    by (simp add: importCSV_small first_csv_def)
  have two: "importCSV demo_rt ''t'' second_csv (map (normalize demo_rt ''t'') first_csv)
      = map (normalize demo_rt ''t'') second_csv @ map (normalize demo_rt ''t'') first_csv"
    by (simp add: importCSV_small first_csv_def second_csv_def)
  have three: "importCSV demo_rt ''t'' second_csv [] = map (normalize demo_rt ''t'') second_csv"
    by (simp add: importCSV_small second_csv_def)
  have a: "map rs_route (routeStats demo_rt
      (map (normalize demo_rt ''t'') second_csv @ map (normalize demo_rt ''t'') first_csv))
     = [''B'', ''A'', ''C'']"
    by code_simp
  have b: "map rs_route (routeStats demo_rt (map (normalize demo_rt ''t'') second_csv)) = [''B'']"
    by code_simp
  show ?thesis
    by (simp only: one two three a b)
qed

text \<open>
  The prediction groups are outside this statement: the branch of the effect that clears the
  statistics and the predictions leaves \<open>predGroups\<close> as it was, so after a dataset without a
  detected value column the groups counted for the dataset before are still there.
\<close>

lemma predGroups_kept:
  "analytics rt (onParsed lc d f st) = Inr st2 \<Longrightarrow> valueCol (auto_select lc f) = [] \<Longrightarrow>
     st_predGroups st2 = st_predGroups st \<and> st_predictions st2 = []"
  by (auto simp: analytics_def onParsed_def Let_def split: if_splits sum.splits)

lemma predGroups_stale:
  "map_sum id st_predGroups (ingest demo_rt id first_csv [''route'', ''count''] initial)
     = Inr [\<lparr>gc_name = ''Heavy'', gc_count = 1\<rparr>, \<lparr>gc_name = ''Moderate'', gc_count = 0\<rparr>,
            \<lparr>gc_name = ''Light'', gc_count = 1\<rparr>]
   \<and> valueCol (auto_select id [''route'', ''value'']) = []"
  by code_simp

section \<open>Properties of the normalization\<close>



















end
